theory Spec2Isabelle
  imports Complex_Main "HOL-Library.Log_Nat"
begin

section \<open>JavaScript values used by the engine\<close>

text \<open>
  A JavaScript \<^verbatim>\<open>number\<close> is a binary64 value; the model writes it as the real that it
  denotes. The durations of the analyzer are products and sums of such numbers: each
  product and each sum is the exact result rounded to the nearest binary64 value, a tie
  going to the even significand, with gradual underflow (\<open>fl\<close> below). The not-a-number
  value, the infinities (a result beyond the largest binary64 value) and the sign of zero
  are outside the model. The scores are sums and means of integers up to 100 and sums of
  four products of such integers with fixed weights; they are computed exactly.
  A JavaScript string is a sequence of UTF-16 code units; a \<^typ>\<open>char\<close> holds the code
  units below 256, so the strings of the model are the Latin-1 strings.
\<close>

type_synonym number = real

definition exponent :: "real \<Rightarrow> int" where
  \<comment> \<open>of a positive number: the \<open>e\<close> with \<open>2 ^ e \<le> x < 2 ^ (e + 1)\<close>\<close>
  "exponent x = (if 1 \<le> x then bitlen \<lfloor>x\<rfloor> - 1 else - bitlen (\<lceil>1 / x\<rceil> - 1))"

definition round_even :: "real \<Rightarrow> int" where
  \<comment> \<open>the nearest integer, a tie going to the even one\<close>
  "round_even q = (let f = \<lfloor>q\<rfloor>; r = q - of_int f in
     if r < 1 / 2 then f else if 1 / 2 < r then f + 1 else if even f then f else f + 1)"

definition fl :: "real \<Rightarrow> number" where
  \<comment> \<open>The nearest binary64 value: a significand of 53 bits, so the spacing of the values
      near \<open>x\<close> is \<open>2 ^ (e - 52)\<close>; below \<open>2 ^ (- 1022)\<close> the spacing stays \<open>2 ^ (- 1074)\<close>.\<close>
  "fl x = (if x = 0 then 0 else
     let u = 2 powi (max (exponent \<bar>x\<bar>) (- 1022) - 52) in of_int (round_even (x / u)) * u)"

definition fmul :: "number \<Rightarrow> number \<Rightarrow> number" where
  \<comment> \<open>\<^verbatim>\<open>x * y\<close>\<close>
  "fmul x y = fl (x * y)"

definition fadd :: "number \<Rightarrow> number \<Rightarrow> number" where
  \<comment> \<open>\<^verbatim>\<open>x + y\<close>\<close>
  "fadd x y = fl (x + y)"

definition Math_round :: "number \<Rightarrow> number" where
  \<comment> \<open>\<^verbatim>\<open>Math.round\<close>: the nearest integer, a tie going up.\<close>
  "Math_round x = of_int \<lfloor>x + 1 / 2\<rfloor>"

definition code :: "char \<Rightarrow> nat" where
  "code c = of_char c"

definition is_space :: "char \<Rightarrow> bool" where
  \<comment> \<open>White space and line terminators: what \<^verbatim>\<open>\s\<close> matches and \<^verbatim>\<open>trim\<close> strips
      (tab, line feed, vertical tab, form feed, carriage return, space, no-break space).\<close>
  "is_space c = (let n = code c in (9 \<le> n \<and> n \<le> 13) \<or> n = 32 \<or> n = 160)"

definition is_word :: "char \<Rightarrow> bool" where
  \<comment> \<open>\<^verbatim>\<open>\w\<close>: an ASCII letter, a digit or the underscore.\<close>
  "is_word c = (let n = code c in
     (48 \<le> n \<and> n \<le> 57) \<or> (65 \<le> n \<and> n \<le> 90) \<or> n = 95 \<or> (97 \<le> n \<and> n \<le> 122))"

definition canon :: "char \<Rightarrow> nat" where
  \<comment> \<open>Canonicalize of a pattern with the \<^verbatim>\<open>i\<close> flag and without the \<^verbatim>\<open>u\<close> flag: the code
      unit of the upper-case form, when that form is one code unit. The micro sign and
      y with diaeresis have upper-case forms beyond Latin-1; sharp s has none of one
      code unit, and keeps its own.\<close>
  "canon c = (let n = code c in
     if (97 \<le> n \<and> n \<le> 122) \<or> (224 \<le> n \<and> n \<le> 254 \<and> n \<noteq> 247) then n - 32
     else if n = 181 then 924
     else if n = 255 then 376
     else n)"

definition lower_char :: "char \<Rightarrow> char" where
  "lower_char c = (let n = code c in
     if (65 \<le> n \<and> n \<le> 90) \<or> (192 \<le> n \<and> n \<le> 222 \<and> n \<noteq> 215) then char_of (n + 32)
     else c)"

definition toLowerCase :: "string \<Rightarrow> string" where
  "toLowerCase s = map lower_char s"

definition upper_char :: "char \<Rightarrow> string" where
  \<comment> \<open>Sharp s becomes two letters. The micro sign and y with diaeresis are left as they
      are: their upper-case forms lie beyond Latin-1, and like them they equal no ASCII
      letter.\<close>
  "upper_char c = (let n = code c in
     if (97 \<le> n \<and> n \<le> 122) \<or> (224 \<le> n \<and> n \<le> 254 \<and> n \<noteq> 247) then [char_of (n - 32)]
     else if n = 223 then ''SS''
     else [c])"

definition toUpperCase :: "string \<Rightarrow> string" where
  "toUpperCase s = concat (map upper_char s)"

definition trim :: "string \<Rightarrow> string" where
  "trim s = rev (dropWhile is_space (rev (dropWhile is_space s)))"

fun split :: "char \<Rightarrow> string \<Rightarrow> string list" where
  \<comment> \<open>\<^verbatim>\<open>s.split(sep)\<close> for a separator of one character; the empty string gives one
      empty piece.\<close>
  "split sep [] = [[]]"
| "split sep (x # xs) =
     (if x = sep then [] # split sep xs
      else (case split sep xs of
              [] \<Rightarrow> [[x]]
            | p # ps \<Rightarrow> (x # p) # ps))"

section \<open>Regular expressions\<close>

text \<open>
  The constructs that the patterns of the repository use: literal characters (all patterns
  carry the \<^verbatim>\<open>i\<close> flag), the classes \<^verbatim>\<open>\s\<close> and \<^verbatim>\<open>\w\<close> under the greedy \<^verbatim>\<open>+\<close>, the greedy
  \<^verbatim>\<open>?\<close>, concatenation, the capture group (each pattern has at most one) and the negative
  lookahead.
\<close>

datatype cclass = Space | Word

datatype rx =
    Eps
  | Lit char
  | Plus cclass
  | Opt rx
  | Seq rx rx
  | Grp rx
  | NotAhead rx

fun in_class :: "cclass \<Rightarrow> char \<Rightarrow> bool" where
  "in_class Space c = is_space c"
| "in_class Word c = is_word c"

definition seq :: "rx list \<Rightarrow> rx" where
  "seq rs = foldr Seq rs Eps"

definition Str :: "string \<Rightarrow> rx" where
  "Str s = seq (map Lit s)"

text \<open>
  A matcher state is the input that is left and the text of capture group 1. The matcher
  returns the states in which a match of the expression can end, in the order in which a
  backtracking matcher tries them: the first one is the match that \<^verbatim>\<open>exec\<close> reports.
\<close>

type_synonym mstate = "string \<times> string option"

fun plus_ends :: "cclass \<Rightarrow> string \<Rightarrow> string list" where
  \<comment> \<open>one or more characters of the class, the longest run first\<close>
  "plus_ends k [] = []"
| "plus_ends k (x # xs) = (if in_class k x then plus_ends k xs @ [xs] else [])"

primrec matcher :: "rx \<Rightarrow> mstate \<Rightarrow> mstate list" where
  "matcher Eps st = [st]"
| "matcher (Lit c) st =
     (case fst st of
        [] \<Rightarrow> []
      | x # xs \<Rightarrow> if canon x = canon c then [(xs, snd st)] else [])"
| "matcher (Plus k) st = map (\<lambda>r. (r, snd st)) (plus_ends k (fst st))"
| "matcher (Opt r) st = matcher r st @ [st]"
| "matcher (Seq a b) st = concat (map (matcher b) (matcher a st))"
| "matcher (Grp r) st =
     map (\<lambda>e. (fst e, Some (take (length (fst st) - length (fst e)) (fst st)))) (matcher r st)"
| "matcher (NotAhead r) st = (if matcher r st = [] then [st] else [])"

fun exec :: "rx \<Rightarrow> string \<Rightarrow> string option option" where
  \<comment> \<open>\<^verbatim>\<open>pattern.exec(s)\<close> of a pattern without the \<^verbatim>\<open>g\<close> flag: the leftmost start at which
      the pattern matches; the result is capture group 1 of that match.\<close>
  "exec r [] = (case matcher r ([], None) of [] \<Rightarrow> None | e # _ \<Rightarrow> Some (snd e))"
| "exec r (x # xs) = (case matcher r (x # xs, None) of [] \<Rightarrow> exec r xs | e # _ \<Rightarrow> Some (snd e))"

definition test :: "rx \<Rightarrow> string \<Rightarrow> bool" where
  "test r s = (exec r s \<noteq> None)"

section \<open>The multi-factor scorer\<close>

record Details =
  isNullable :: "bool option"
  hasDefault :: "bool option"
  columnTypeChange :: "bool option"
  isConcurrent :: "bool option"

record ParsedMigration =
  sql :: string
  operation :: string
  table :: string
  details :: "Details option"

record TableMetadata =
  name :: string
  rowCount :: number
  sizeBytes :: number
  foreignKeyCount :: "number option"
  referencedByCount :: "number option"

record RiskFactor =
  name :: string
  score :: number
  explanation :: string

datatype RiskLevel = low | medium | high | critical

record RiskReport =
  overallScore :: number
  riskLevel :: RiskLevel
  factors :: "RiskFactor list"

record Weights =
  tableSize :: number
  lockRisk :: number
  cascadeRisk :: number
  dataLoss :: number

definition WEIGHTS :: Weights where
  "WEIGHTS = \<lparr>tableSize = 25 / 100, lockRisk = 30 / 100, cascadeRisk = 20 / 100,
     dataLoss = 25 / 100\<rparr>"

text \<open>
  The explanations print numbers. How a number is printed (\<^verbatim>\<open>toLocaleString\<close>, which
  depends on the locale of the process, and the conversion of a template literal) is a
  parameter of the scoring functions. The dash of the explanations, a character beyond
  Latin-1, is written as a hyphen.
\<close>

record Printer =
  toLocaleString :: "number \<Rightarrow> string"
  toString :: "number \<Rightarrow> string"

definition scoreTableSize :: "Printer \<Rightarrow> number \<Rightarrow> RiskFactor" where
  "scoreTableSize pr rows =
     (if rows \<le> 0 then
        \<lparr>name = ''Table Size Impact'', score = 0,
         explanation = ''Empty table - no size impact.''\<rparr>
      else if rows < 10000 then
        \<lparr>name = ''Table Size Impact'', score = 5,
         explanation = ''Small table ('' @ toLocaleString pr rows @ '' rows) - minimal size impact.''\<rparr>
      else if rows < 100000 then
        \<lparr>name = ''Table Size Impact'', score = 15,
         explanation = ''Moderate table ('' @ toLocaleString pr rows @ '' rows) - low size impact.''\<rparr>
      else if rows < 1000000 then
        \<lparr>name = ''Table Size Impact'', score = 35,
         explanation = ''Large table ('' @ toLocaleString pr rows @ '' rows) - notable size impact.''\<rparr>
      else if rows < 10000000 then
        \<lparr>name = ''Table Size Impact'', score = 65,
         explanation = ''Very large table ('' @ toLocaleString pr rows @ '' rows) - significant size impact.''\<rparr>
      else if rows < 100000000 then
        \<lparr>name = ''Table Size Impact'', score = 85,
         explanation = ''Massive table ('' @ toLocaleString pr rows @ '' rows) - high size impact.''\<rparr>
      else
        \<lparr>name = ''Table Size Impact'', score = 100,
         explanation = ''Enormous table ('' @ toLocaleString pr rows @ '' rows) - extreme size impact.''\<rparr>)"

definition flag :: "Details option \<Rightarrow> (Details \<Rightarrow> bool option) \<Rightarrow> bool" where
  \<comment> \<open>the truth value of \<^verbatim>\<open>(migration.details || {}).field\<close>\<close>
  "flag d field = (case d of None \<Rightarrow> False | Some x \<Rightarrow> (case field x of None \<Rightarrow> False | Some b \<Rightarrow> b))"

definition scoreLockRisk :: "ParsedMigration \<Rightarrow> RiskFactor" where
  "scoreLockRisk migration =
     (let op = toUpperCase (operation migration); d = details migration in
      if op = ''ALTER COLUMN TYPE'' \<or> flag d columnTypeChange then
        \<lparr>name = ''Lock Risk'', score = 90,
         explanation = ''Column type change requires full table rewrite with ACCESS EXCLUSIVE lock.''\<rparr>
      else if op = ''CREATE INDEX'' \<or> op = ''ADD INDEX'' then
        (if flag d isConcurrent then
           \<lparr>name = ''Lock Risk'', score = 15,
            explanation = ''Concurrent index creation uses SHARE UPDATE EXCLUSIVE lock - minimal blocking.''\<rparr>
         else
           \<lparr>name = ''Lock Risk'', score = 80,
            explanation = ''Non-concurrent index creation holds SHARE lock, blocking all writes.''\<rparr>)
      else if op = ''TRUNCATE'' then
        \<lparr>name = ''Lock Risk'', score = 75,
         explanation = ''TRUNCATE requires ACCESS EXCLUSIVE lock.''\<rparr>
      else if op = ''DROP TABLE'' then
        \<lparr>name = ''Lock Risk'', score = 70,
         explanation = ''DROP TABLE requires ACCESS EXCLUSIVE lock, blocking all concurrent operations.''\<rparr>
      else if op = ''DROP COLUMN'' then
        \<lparr>name = ''Lock Risk'', score = 70,
         explanation = ''DROP COLUMN requires ACCESS EXCLUSIVE lock on the table.''\<rparr>
      else if op = ''ADD COLUMN'' then
        (if \<not> flag d isNullable \<and> \<not> flag d hasDefault then
           \<lparr>name = ''Lock Risk'', score = 60,
            explanation = ''ADD COLUMN NOT NULL without DEFAULT requires table rewrite and ACCESS EXCLUSIVE lock.''\<rparr>
         else
           \<lparr>name = ''Lock Risk'', score = 10,
            explanation = ''ADD COLUMN (nullable or with default) is a metadata-only change - minimal lock.''\<rparr>)
      else
        \<lparr>name = ''Lock Risk'', score = 20,
         explanation = ''Operation \"'' @ op @ ''\" may require table-level lock.''\<rparr>)"

definition or_zero :: "number option \<Rightarrow> number" where
  \<comment> \<open>\<^verbatim>\<open>x || 0\<close> for an optional number\<close>
  "or_zero x = (case x of None \<Rightarrow> 0 | Some v \<Rightarrow> v)"

definition fkCount :: "TableMetadata \<Rightarrow> number" where
  "fkCount metadata = or_zero (foreignKeyCount metadata) + or_zero (referencedByCount metadata)"

definition scoreCascadeRisk :: "Printer \<Rightarrow> TableMetadata \<Rightarrow> RiskFactor" where
  "scoreCascadeRisk pr metadata =
     (let k = fkCount metadata in
      if k = 0 then
        \<lparr>name = ''Cascade Risk'', score = 0,
         explanation = ''No foreign key relationships - no cascade risk.''\<rparr>
      else if k \<le> 2 then
        \<lparr>name = ''Cascade Risk'', score = 20,
         explanation = toString pr k @ '' foreign key relationship(s) - low cascade risk.''\<rparr>
      else if k \<le> 4 then
        \<lparr>name = ''Cascade Risk'', score = 50,
         explanation = toString pr k @ '' foreign key relationships - moderate cascade risk.''\<rparr>
      else if k \<le> 9 then
        \<lparr>name = ''Cascade Risk'', score = 80,
         explanation = toString pr k @ '' foreign key relationships - high cascade risk. Changes may trigger cascading locks or constraint checks.''\<rparr>
      else
        \<lparr>name = ''Cascade Risk'', score = 100,
         explanation = toString pr k @ '' foreign key relationships - extreme cascade risk.''\<rparr>)"

definition scoreDataLoss :: "ParsedMigration \<Rightarrow> RiskFactor" where
  "scoreDataLoss migration =
     (let op = toUpperCase (operation migration) in
      if op = ''DROP TABLE'' then
        \<lparr>name = ''Data Loss Risk'', score = 100,
         explanation = ''DROP TABLE permanently destroys the entire table and all its data.''\<rparr>
      else if op = ''TRUNCATE'' then
        \<lparr>name = ''Data Loss Risk'', score = 90,
         explanation = ''TRUNCATE removes all rows from the table.''\<rparr>
      else if op = ''DROP COLUMN'' then
        \<lparr>name = ''Data Loss Risk'', score = 80,
         explanation = ''DROP COLUMN permanently removes column data from all rows.''\<rparr>
      else
        \<lparr>name = ''Data Loss Risk'', score = 0,
         explanation = ''No data loss risk detected for this operation.''\<rparr>)"

definition determineRiskLevel :: "number \<Rightarrow> RiskLevel" where
  "determineRiskLevel s =
     (if s \<le> 25 then low else if s \<le> 50 then medium else if s \<le> 75 then high else critical)"

definition calculateRiskScore :: "Printer \<Rightarrow> ParsedMigration \<Rightarrow> TableMetadata \<Rightarrow> RiskReport" where
  "calculateRiskScore pr migration metadata =
     (let tableSizeFactor = scoreTableSize pr (rowCount metadata);
          lockRiskFactor = scoreLockRisk migration;
          cascadeRiskFactor = scoreCascadeRisk pr metadata;
          dataLossFactor = scoreDataLoss migration;
          fs = [tableSizeFactor, lockRiskFactor, cascadeRiskFactor, dataLossFactor];
          total = Math_round
            (tableSize WEIGHTS * score tableSizeFactor +
             lockRisk WEIGHTS * score lockRiskFactor +
             cascadeRisk WEIGHTS * score cascadeRiskFactor +
             dataLoss WEIGHTS * score dataLossFactor)
      in \<lparr>overallScore = total, riskLevel = determineRiskLevel total, factors = fs\<rparr>)"


section \<open>The analyzer\<close>

record TableMeta =
  name :: string
  rowCount :: number
  sizeBytes :: number

record Assessment =
  operation :: string
  riskLevel :: RiskLevel
  lockType :: string
  estimatedDurationMs :: number
  dataLoss :: bool
  suggestion :: string

record RiskItem = Assessment +
  table :: string

record AnalysisReport =
  operations :: "RiskItem list"
  overallRisk :: RiskLevel
  totalEstimatedDurationMs :: number
  score :: number

record Rule =
  pattern :: rx
  assess :: "TableMeta \<Rightarrow> string \<Rightarrow> Assessment"

definition R :: number where
  \<comment> \<open>ms per row baseline: the literal \<^verbatim>\<open>0.01\<close>, that is, the binary64 value nearest to it\<close>
  "R = fl (1 / 100)"

fun SCORES :: "RiskLevel \<Rightarrow> number" where
  "SCORES low = 10"
| "SCORES medium = 40"
| "SCORES high = 70"
| "SCORES critical = 100"

definition DEFAULT_META :: TableMeta where
  "DEFAULT_META = \<lparr>name = ''unknown'', rowCount = 100000, sizeBytes = 10000000\<rparr>"

definition mk :: "string \<Rightarrow> RiskLevel \<Rightarrow> string \<Rightarrow> number \<Rightarrow> bool \<Rightarrow> string \<Rightarrow> Assessment" where
  "mk op lvl lock ms loss hint =
     \<lparr>operation = op, riskLevel = lvl, lockType = lock, estimatedDurationMs = ms,
      dataLoss = loss, suggestion = hint\<rparr>"

definition alter_table :: "rx list" where
  \<comment> \<open>the common head \<^verbatim>\<open>ALTER\s+TABLE\s+"?(\w+)"?\s+\<close> of six patterns\<close>
  "alter_table = [Str ''ALTER'', Plus Space, Str ''TABLE'', Plus Space, Opt (Lit CHR 0x22),
     Grp (Plus Word), Opt (Lit CHR 0x22), Plus Space]"

definition rule_drop_table :: Rule where
  \<comment> \<open>\<^verbatim>\<open>/DROP\s+TABLE\s+(?:IF\s+EXISTS\s+)?"?(\w+)/i\<close>\<close>
  "rule_drop_table = \<lparr>
     pattern = seq [Str ''DROP'', Plus Space, Str ''TABLE'', Plus Space,
       Opt (seq [Str ''IF'', Plus Space, Str ''EXISTS'', Plus Space]),
       Opt (Lit CHR 0x22), Grp (Plus Word)],
     assess = (\<lambda>m stmt. mk ''DROP TABLE'' critical ''ACCESS EXCLUSIVE'' 50 True
       ''Ensure full backup. Consider renaming to _deprecated instead.'')\<rparr>"

definition rule_drop_column :: Rule where
  \<comment> \<open>\<^verbatim>\<open>/ALTER\s+TABLE\s+"?(\w+)"?\s+DROP\s+COLUMN/i\<close>\<close>
  "rule_drop_column = \<lparr>
     pattern = seq (alter_table @ [Str ''DROP'', Plus Space, Str ''COLUMN'']),
     assess = (\<lambda>m stmt. mk ''DROP COLUMN'' high ''ACCESS EXCLUSIVE'' (fmul (rowCount m) R) True
       ''Column data will be permanently lost. Add deprecation period first.'')\<rparr>"

definition rule_alter_column_type :: Rule where
  \<comment> \<open>\<^verbatim>\<open>/ALTER\s+TABLE\s+"?(\w+)"?\s+ALTER\s+COLUMN\s+\w+\s+(?:SET\s+DATA\s+)?TYPE/i\<close>\<close>
  "rule_alter_column_type = \<lparr>
     pattern = seq (alter_table @ [Str ''ALTER'', Plus Space, Str ''COLUMN'', Plus Space,
       Plus Word, Plus Space,
       Opt (seq [Str ''SET'', Plus Space, Str ''DATA'', Plus Space]), Str ''TYPE'']),
     assess = (\<lambda>m stmt. mk ''ALTER COLUMN TYPE'' high ''ACCESS EXCLUSIVE'' (fmul (fmul (rowCount m) R) 2) False
       ''Full table rewrite required. Schedule during maintenance window.'')\<rparr>"

definition not_null :: rx where
  \<comment> \<open>\<^verbatim>\<open>/NOT\s+NULL/i\<close>; the other scan of the rule is \<^verbatim>\<open>/DEFAULT/i\<close>\<close>
  "not_null = seq [Str ''NOT'', Plus Space, Str ''NULL'']"

definition rule_add_column :: Rule where
  \<comment> \<open>\<^verbatim>\<open>/ALTER\s+TABLE\s+"?(\w+)"?\s+ADD\s+COLUMN/i\<close>\<close>
  "rule_add_column = \<lparr>
     pattern = seq (alter_table @ [Str ''ADD'', Plus Space, Str ''COLUMN'']),
     assess = (\<lambda>m stmt.
       if test not_null stmt \<and> \<not> test (Str ''DEFAULT'') stmt
       then mk ''ADD COLUMN (NOT NULL, no default)'' high ''ACCESS EXCLUSIVE'' (fmul (fmul (rowCount m) R) 2) False
         ''Add DEFAULT value or use nullable + backfill + set NOT NULL strategy.''
       else mk ''ADD COLUMN'' low ''ACCESS EXCLUSIVE (brief)'' 10 False
         ''Safe in PostgreSQL 11+. Fast metadata-only operation.'')\<rparr>"

definition rule_create_index_concurrently :: Rule where
  \<comment> \<open>\<^verbatim>\<open>/CREATE\s+INDEX\s+CONCURRENTLY\s+\w+\s+ON\s+"?(\w+)/i\<close>\<close>
  "rule_create_index_concurrently = \<lparr>
     pattern = seq [Str ''CREATE'', Plus Space, Str ''INDEX'', Plus Space, Str ''CONCURRENTLY'',
       Plus Space, Plus Word, Plus Space, Str ''ON'', Plus Space, Opt (Lit CHR 0x22),
       Grp (Plus Word)],
     assess = (\<lambda>m stmt. mk ''CREATE INDEX CONCURRENTLY'' low ''SHARE UPDATE EXCLUSIVE'' (fmul (fmul (rowCount m) R) 3) False
       ''Good practice. Monitor for long-running transactions that may block.'')\<rparr>"

definition rule_create_index :: Rule where
  \<comment> \<open>\<^verbatim>\<open>/CREATE\s+(?:UNIQUE\s+)?INDEX\s+(?!CONCURRENTLY)\w+\s+ON\s+"?(\w+)/i\<close>\<close>
  "rule_create_index = \<lparr>
     pattern = seq [Str ''CREATE'', Plus Space, Opt (seq [Str ''UNIQUE'', Plus Space]),
       Str ''INDEX'', Plus Space, NotAhead (Str ''CONCURRENTLY''), Plus Word, Plus Space,
       Str ''ON'', Plus Space, Opt (Lit CHR 0x22), Grp (Plus Word)],
     assess = (\<lambda>m stmt. mk ''CREATE INDEX'' high ''SHARE'' (fmul (fmul (rowCount m) R) 3) False
       ''Use CREATE INDEX CONCURRENTLY to avoid blocking writes.'')\<rparr>"

definition rule_add_constraint :: Rule where
  \<comment> \<open>\<^verbatim>\<open>/ALTER\s+TABLE\s+"?(\w+)"?\s+ADD\s+CONSTRAINT/i\<close>\<close>
  "rule_add_constraint = \<lparr>
     pattern = seq (alter_table @ [Str ''ADD'', Plus Space, Str ''CONSTRAINT'']),
     assess = (\<lambda>m stmt. mk ''ADD CONSTRAINT'' medium ''ACCESS EXCLUSIVE'' (fmul (rowCount m) R) False
       ''For FK constraints, use NOT VALID then VALIDATE CONSTRAINT separately.'')\<rparr>"

definition rule_rename :: Rule where
  \<comment> \<open>\<^verbatim>\<open>/ALTER\s+TABLE\s+"?(\w+)"?\s+RENAME/i\<close>\<close>
  "rule_rename = \<lparr>
     pattern = seq (alter_table @ [Str ''RENAME'']),
     assess = (\<lambda>m stmt. mk ''RENAME'' medium ''ACCESS EXCLUSIVE (brief)'' 10 False
       ''Update all application queries referencing the old name.'')\<rparr>"

definition RULES :: "Rule list" where
  "RULES = [rule_drop_table, rule_drop_column, rule_alter_column_type, rule_add_column,
     rule_create_index_concurrently, rule_create_index, rule_add_constraint, rule_rename]"

fun first_match :: "Rule list \<Rightarrow> string \<Rightarrow> (Rule \<times> string option) option" where
  \<comment> \<open>the inner loop: the first rule whose pattern matches, with its capture\<close>
  "first_match [] stmt = None"
| "first_match (rule # rules) stmt =
     (case exec (pattern rule) stmt of
        Some cap \<Rightarrow> Some (rule, cap)
      | None \<Rightarrow> first_match rules stmt)"

definition captured :: "string option \<Rightarrow> string" where
  \<comment> \<open>\<^verbatim>\<open>match[1] || "unknown"\<close>: a group that did not take part, or that is empty, gives
      the literal\<close>
  "captured cap = (case cap of None \<Rightarrow> ''unknown'' | Some t \<Rightarrow> if t = [] then ''unknown'' else t)"

definition meta_for :: "(string \<rightharpoonup> TableMeta) \<Rightarrow> string \<Rightarrow> TableMeta" where
  \<comment> \<open>\<^verbatim>\<open>metaMap.get(table.toLowerCase()) || { ...DEFAULT_META, name: table }\<close>\<close>
  "meta_for metaMap tbl =
     (case metaMap (toLowerCase tbl) of
        Some t \<Rightarrow> t
      | None \<Rightarrow> DEFAULT_META\<lparr>name := tbl\<rparr>)"

definition with_table :: "Assessment \<Rightarrow> string \<Rightarrow> RiskItem" where
  \<comment> \<open>\<^verbatim>\<open>{ ...assessment, table }\<close>\<close>
  "with_table a tbl =
     \<lparr>operation = operation a, riskLevel = riskLevel a, lockType = lockType a,
      estimatedDurationMs = estimatedDurationMs a, dataLoss = dataLoss a,
      suggestion = suggestion a, table = tbl\<rparr>"

definition assess_stmt :: "(string \<rightharpoonup> TableMeta) \<Rightarrow> string \<Rightarrow> RiskItem option" where
  \<comment> \<open>the body of the outer loop: the item that a statement adds, if any\<close>
  "assess_stmt metaMap stmt =
     (case first_match RULES stmt of
        None \<Rightarrow> None
      | Some (rule, cap) \<Rightarrow>
          (let tbl = captured cap;
               meta = meta_for metaMap tbl
           in Some (with_table (assess rule meta stmt) tbl)))"

fun collect :: "(string \<rightharpoonup> TableMeta) \<Rightarrow> string list \<Rightarrow> RiskItem list \<Rightarrow> RiskItem list" where
  \<comment> \<open>the outer loop, pushing onto the array of operations\<close>
  "collect metaMap [] ops = ops"
| "collect metaMap (stmt # stmts) ops =
     collect metaMap stmts
       (case assess_stmt metaMap stmt of None \<Rightarrow> ops | Some item \<Rightarrow> ops @ [item])"

definition metaMap_of :: "TableMeta list \<Rightarrow> (string \<rightharpoonup> TableMeta)" where
  \<comment> \<open>\<^verbatim>\<open>new Map(tableMeta.map((t) => [t.name.toLowerCase(), t]))\<close>: a later entry replaces
      an earlier one of the same key\<close>
  "metaMap_of tableMeta = foldl (\<lambda>mp t. mp(toLowerCase (name t) \<mapsto> t)) Map.empty tableMeta"

text \<open>
  In \<open>analyze\<close> the durations are added in binary64, from left to right. The weights of
  the score are integers of at most 100; their sum and the rounding of their mean are
  written exactly.
\<close>

definition statements :: "string \<Rightarrow> string list" where
  \<comment> \<open>\<^verbatim>\<open>sql.split(";").map((s) => s.trim()).filter(Boolean)\<close>\<close>
  "statements s = filter (\<lambda>x. x \<noteq> []) (map trim (split CHR '';'' s))"

definition analyze :: "string \<Rightarrow> TableMeta list \<Rightarrow> AnalysisReport" where
  "analyze s tableMeta =
     (let metaMap = metaMap_of tableMeta;
          stmts = statements s;
          ops = collect metaMap stmts [];
          risk = foldl (\<lambda>mx op. if SCORES (riskLevel op) > SCORES mx then riskLevel op else mx) low ops;
          total = Math_round (foldl (\<lambda>acc op. fadd acc (estimatedDurationMs op)) 0 ops);
          sc = (if length ops = 0 then 0
                else Math_round (foldl (\<lambda>acc op. acc + SCORES (riskLevel op)) 0 ops / real (length ops)))
      in \<lparr>operations = ops, overallRisk = risk, totalEstimatedDurationMs = total, score = sc\<rparr>)"

section \<open>Notions of the specification\<close>

fun ordinal :: "RiskLevel \<Rightarrow> nat" where
  \<comment> \<open>the ordinal scale low < medium < high < critical\<close>
  "ordinal low = 0"
| "ordinal medium = 1"
| "ordinal high = 2"
| "ordinal critical = 3"

definition fsum :: "number list \<Rightarrow> number" where
  \<comment> \<open>the sum of the numbers added from left to right in binary64, each partial sum
      rounded\<close>
  "fsum xs = foldl fadd 0 xs"

definition same_but_size :: "TableMeta \<Rightarrow> TableMeta \<Rightarrow> bool" where
  \<comment> \<open>two entries that differ at most in their size in bytes\<close>
  "same_but_size a b = (name a = name b \<and> rowCount a = rowCount b)"

fun ci_prefix :: "string \<Rightarrow> string \<Rightarrow> bool" where
  \<comment> \<open>the text begins with the keyword, letter case ignored\<close>
  "ci_prefix [] s = True"
| "ci_prefix (k # ks) [] = False"
| "ci_prefix (k # ks) (x # xs) = (canon x = canon k \<and> ci_prefix ks xs)"

definition first :: "'a list \<Rightarrow> 'a option" where
  \<comment> \<open>the match that a backtracking matcher reports: the first of the list\<close>
  "first xs = (case xs of [] \<Rightarrow> None | x # _ \<Rightarrow> Some x)"


fun occurs :: "(string \<Rightarrow> bool) \<Rightarrow> string \<Rightarrow> bool" where
  \<comment> \<open>the property holds of the text from some position on\<close>
  "occurs P [] = P []"
| "occurs P (x # xs) = (P (x # xs) \<or> occurs P xs)"

definition mentions :: "string \<Rightarrow> string \<Rightarrow> bool" where
  \<comment> \<open>the text contains the keyword, letter case ignored\<close>
  "mentions kw s = occurs (ci_prefix kw) s"

definition not_null_here :: "string \<Rightarrow> bool" where
  \<comment> \<open>the words NOT and NULL, letter case ignored, with white space between them\<close>
  "not_null_here s =
     (ci_prefix ''NOT'' s \<and>
      (case drop 3 s of
         [] \<Rightarrow> False
       | c # r \<Rightarrow> is_space c \<and> ci_prefix ''NULL'' (dropWhile is_space r)))"

definition has_not_null :: "string \<Rightarrow> bool" where
  \<comment> \<open>the text contains the not-null qualifier\<close>
  "has_not_null s = occurs not_null_here s"

section \<open>Sample inputs\<close>

definition script3 :: string where
  \<comment> \<open>the three-statement migration of the repository's tests\<close>
  "script3 = ''ALTER TABLE orders ADD COLUMN status varchar(20);'' @ [CHR 0x0A] @
     ''CREATE INDEX CONCURRENTLY idx_status ON orders (status);'' @ [CHR 0x0A] @
     ''ALTER TABLE orders DROP COLUMN legacy_flag''"

definition two_drops :: string where
  "two_drops = ''ALTER TABLE a DROP COLUMN c; ALTER TABLE b DROP COLUMN c''"

definition rows_1_49 :: "TableMeta list" where
  "rows_1_49 = [\<lparr>name = ''a'', rowCount = 1, sizeBytes = 8192\<rparr>,
     \<lparr>name = ''b'', rowCount = 49, sizeBytes = 8192\<rparr>]"


definition quoting_drop :: string where
  \<comment> \<open>a partial index whose predicate quotes another statement\<close>
  "quoting_drop = ''i ON audit (action) WHERE action = '' @ [CHR 0x27] @ ''DROP TABLE x'' @ [CHR 0x27]"

definition plain :: Printer where
  "plain = \<lparr>toLocaleString = (\<lambda>x. ''n''), toString = (\<lambda>x. ''n'')\<rparr>"

definition orders_fk :: "number option \<Rightarrow> number option \<Rightarrow> TableMetadata" where
  "orders_fk a b = \<lparr>TableMetadata.name = ''orders'', TableMetadata.rowCount = 100000,
     TableMetadata.sizeBytes = 100000000, foreignKeyCount = a, referencedByCount = b\<rparr>"

definition add_not_null :: string where
  "add_not_null = ''ALTER TABLE x ADD COLUMN y int NOT NULL''"

definition add_nullable :: string where
  "add_nullable = ''ALTER TABLE x ADD COLUMN y text''"

definition events_meta :: "number \<Rightarrow> TableMeta list" where
  "events_meta sz = [\<lparr>name = ''events'', rowCount = 10000000, sizeBytes = sz\<rparr>]"

definition idx_rest :: string where
  "idx_rest = ''idx_email ON users (email)''"

section \<open>Facts about the rounding to binary64\<close>

lemma exponent_bounds:
  assumes "0 < x"
  shows "2 powi exponent x \<le> x \<and> x < 2 powi (exponent x + 1)"
proof (cases "1 \<le> x")
  case True
  let ?n = "\<lfloor>x\<rfloor>"
  from True have n: "0 < ?n" by simp
  from bitlen_bounds [OF n] have lo: "2 ^ nat (bitlen ?n - 1) \<le> ?n" and hi: "?n < 2 ^ nat (bitlen ?n)"
    by simp_all
  from n have b: "1 \<le> bitlen ?n" by (simp add: bitlen_alt_def)
  have "real_of_int (2 ^ nat (bitlen ?n - 1)) \<le> real_of_int ?n" using lo by (simp only: of_int_le_iff)
  also have "\<dots> \<le> x" by simp
  finally have l: "2 ^ nat (bitlen ?n - 1) \<le> x" by simp
  from hi have "?n + 1 \<le> 2 ^ nat (bitlen ?n)" by simp
  then have "real_of_int (?n + 1) \<le> real_of_int (2 ^ nat (bitlen ?n))" by (simp only: of_int_le_iff)
  then have "real_of_int ?n + 1 \<le> 2 ^ nat (bitlen ?n)" by simp
  moreover have "x < real_of_int ?n + 1" by linarith
  ultimately have h: "x < 2 ^ nat (bitlen ?n)" by linarith
  from b have e1: "(2::real) powi (bitlen ?n - 1) = 2 ^ nat (bitlen ?n - 1)"
    by (simp add: power_int_def)
  from b have e2: "(2::real) powi (bitlen ?n - 1 + 1) = 2 ^ nat (bitlen ?n)"
    by (simp add: power_int_def)
  from True l h e1 e2 show ?thesis by (simp add: exponent_def)
next
  case False
  with assms have x: "0 < x" "x < 1" by simp_all
  let ?c = "\<lceil>1 / x\<rceil>"
  let ?b = "bitlen (?c - 1)"
  from x have "1 < 1 / x" by simp
  then have c: "2 \<le> ?c" by linarith
  then have m: "0 < ?c - 1" by simp
  from bitlen_bounds [OF m] have lo: "2 ^ nat (?b - 1) \<le> ?c - 1" and hi: "?c - 1 < 2 ^ nat ?b"
    by simp_all
  from m have b: "1 \<le> ?b" by (simp add: bitlen_alt_def)
  from hi have "?c \<le> 2 ^ nat ?b" by simp
  then have "real_of_int ?c \<le> real_of_int (2 ^ nat ?b)" by (simp only: of_int_le_iff)
  then have "real_of_int ?c \<le> 2 ^ nat ?b" by simp
  moreover have "1 / x \<le> real_of_int ?c" by simp
  ultimately have "1 / x \<le> 2 ^ nat ?b" by linarith
  with x have l: "1 / 2 ^ nat ?b \<le> x"
    by (simp add: field_simps)
  have "real_of_int (2 ^ nat (?b - 1)) \<le> real_of_int (?c - 1)" using lo by (simp only: of_int_le_iff)
  then have "2 ^ nat (?b - 1) \<le> real_of_int ?c - 1" by simp
  moreover have "real_of_int ?c - 1 < 1 / x" by linarith
  ultimately have "2 ^ nat (?b - 1) < 1 / x" by linarith
  with x have h: "x < 1 / 2 ^ nat (?b - 1)"
    by (simp add: field_simps)
  from b have e1: "(2::real) powi (- ?b) = 1 / 2 ^ nat ?b"
    by (simp add: power_int_def field_simps)
  from b have e2: "(2::real) powi (- ?b + 1) = 1 / 2 ^ nat (?b - 1)"
    by (cases "?b = 1") (simp_all add: power_int_def field_simps nat_diff_distrib)
  from False l h e1 e2 show ?thesis by (simp add: exponent_def)
qed

lemma round_even_near: "\<bar>of_int (round_even q) - q\<bar> \<le> 1 / 2"
  unfolding round_even_def Let_def by (auto; linarith)

lemma fl_near:
  "\<bar>fl x - x\<bar> \<le> 2 powi (max (exponent \<bar>x\<bar>) (- 1022) - 52) / 2"
proof (cases "x = 0")
  case True
  then show ?thesis by (simp add: fl_def)
next
  case False
  let ?u = "(2::real) powi (max (exponent \<bar>x\<bar>) (- 1022) - 52)"
  have u: "0 < ?u" by simp
  have "\<bar>fl x - x\<bar> = \<bar>of_int (round_even (x / ?u)) - x / ?u\<bar> * ?u"
  proof -
    have "fl x - x = (of_int (round_even (x / ?u)) - x / ?u) * ?u"
      using False u by (simp add: fl_def Let_def field_simps)
    then show ?thesis using u by (simp add: abs_mult)
  qed
  also have "\<dots> \<le> 1 / 2 * ?u"
    using round_even_near [of "x / ?u"] u by (intro mult_right_mono) simp_all
  finally show ?thesis by simp
qed

section \<open>Facts about the aggregation\<close>

lemma SCORES_ordinal: "(SCORES x > SCORES y) = (ordinal x > ordinal y)"
  by (cases x; cases y) simp_all


lemma collect_append: "collect mp stmts ops = ops @ collect mp stmts []"
proof (induction stmts arbitrary: ops)
  case Nil
  show ?case by simp
next
  case (Cons s ss)
  show ?case
  proof (cases "assess_stmt mp s")
    case None
    then show ?thesis using Cons.IH [of ops] by simp
  next
    case (Some item)
    then show ?thesis using Cons.IH [of "ops @ [item]"] Cons.IH [of "[item]"] by simp
  qed
qed

lemma collect_map_filter: "collect mp stmts [] = List.map_filter (assess_stmt mp) stmts"
proof (induction stmts)
  case Nil
  show ?case by (simp add: map_filter_simps)
next
  case (Cons s ss)
  then show ?case
    using collect_append [of mp ss "[the (assess_stmt mp s)]"]
    by (cases "assess_stmt mp s") (simp_all add: map_filter_simps)
qed

lemma operations_analyze: "operations (analyze s tm) = collect (metaMap_of tm) (statements s) []"
  by (simp add: analyze_def Let_def)

lemma overallRisk_analyze:
  "overallRisk (analyze s tm) =
     foldl (\<lambda>mx op. if SCORES (riskLevel op) > SCORES mx then riskLevel op else mx) low
       (operations (analyze s tm))"
  by (simp add: analyze_def Let_def)

lemma total_analyze:
  "totalEstimatedDurationMs (analyze s tm) =
     Math_round (fsum (map estimatedDurationMs (operations (analyze s tm))))"
  by (simp add: analyze_def Let_def fsum_def foldl_map)

lemma default_rows_duration: "fmul 100000 R = 1000"
  by code_simp


lemma fold_max:
  fixes ops :: "RiskItem list"
  defines "f \<equiv> (\<lambda>mx op. if SCORES (riskLevel op) > SCORES mx then riskLevel (op::RiskItem) else mx)"
  shows "(foldl f a ops = a \<or> foldl f a ops \<in> riskLevel ` set ops) \<and>
         ordinal a \<le> ordinal (foldl f a ops) \<and>
         (\<forall>op \<in> set ops. ordinal (riskLevel op) \<le> ordinal (foldl f a ops))"
proof (induction ops arbitrary: a)
  case Nil
  show ?case by simp
next
  case (Cons x xs)
  show ?case
  proof (cases "SCORES (riskLevel x) > SCORES a")
    case True
    then have lt: "ordinal a < ordinal (riskLevel x)" by (simp add: SCORES_ordinal)
    from True have step: "foldl f a (x # xs) = foldl f (riskLevel x) xs" by (simp add: f_def)
    from Cons.IH [of "riskLevel x"] lt show ?thesis unfolding step by auto
  next
    case False
    then have le: "ordinal (riskLevel x) \<le> ordinal a" by (simp add: SCORES_ordinal)
    from False have step: "foldl f a (x # xs) = foldl f a xs" by (simp add: f_def)
    from Cons.IH [of a] le show ?thesis unfolding step by auto
  qed
qed


lemma Math_round_range:
  "a \<in> \<int> \<Longrightarrow> b \<in> \<int> \<Longrightarrow> a \<le> x \<Longrightarrow> x \<le> b \<Longrightarrow> a \<le> Math_round x \<and> Math_round x \<le> b"
  unfolding Math_round_def by (elim Ints_cases) (simp, linarith)

lemma Math_round_nearest: "Math_round x \<in> \<int> \<and> \<bar>Math_round x - x\<bar> \<le> 1 / 2"
proof -
  have "\<bar>of_int \<lfloor>x + 1 / 2\<rfloor> - x\<bar> \<le> 1 / 2" by linarith
  then show ?thesis by (simp add: Math_round_def)
qed




section \<open>Facts about the factor scores\<close>

lemma ts_range: "RiskFactor.score (scoreTableSize pr r) \<in> {0, 5, 15, 35, 65, 85, 100}"
  by (simp add: scoreTableSize_def)
lemma lr_range: "RiskFactor.score (scoreLockRisk mg) \<in> {90, 15, 80, 75, 70, 60, 10, 20}"
  by (simp add: scoreLockRisk_def Let_def)
lemma cr_range: "RiskFactor.score (scoreCascadeRisk pr md) \<in> {0, 20, 50, 80, 100}"
  by (simp add: scoreCascadeRisk_def Let_def)
lemma dl_range: "RiskFactor.score (scoreDataLoss mg) \<in> {100, 90, 80, 0}"
  by (simp add: scoreDataLoss_def Let_def)

lemma weighted_bounds:
  assumes "0 \<le> a \<and> a \<le> (100::real)" "0 \<le> b \<and> b \<le> 100" "0 \<le> c \<and> c \<le> 100" "0 \<le> d \<and> d \<le> 100"
  shows "0 \<le> 25 / 100 * a + 30 / 100 * b + 20 / 100 * c + 25 / 100 * d \<and>
         25 / 100 * a + 30 / 100 * b + 20 / 100 * c + 25 / 100 * d \<le> 100"
  using assms by simp

section \<open>Facts about the analysis of one statement\<close>

lemmas rx_eval = seq_def Str_def canon_def code_def is_space_def is_word_def Let_def

lemma set_map_filter: "set (List.map_filter f xs) = {y. \<exists>x \<in> set xs. f x = Some y}"
  by (induction xs) (auto simp: map_filter_simps split: option.splits)

lemma in_operations:
  "stmt \<in> set (statements s) \<Longrightarrow> assess_stmt (metaMap_of tm) stmt = Some item \<Longrightarrow>
   item \<in> set (operations (analyze s tm))"
  by (auto simp: operations_analyze collect_map_filter set_map_filter)

lemma operations_single:
  "statements s = [stmt] \<Longrightarrow>
   operations (analyze s tm) = (case assess_stmt (metaMap_of tm) stmt of None \<Rightarrow> [] | Some item \<Rightarrow> [item])"
  by (simp add: operations_analyze split: option.splits)

lemma assess_rowCount:
  "rule \<in> set RULES \<Longrightarrow> rowCount m1 = rowCount m2 \<Longrightarrow> assess rule m1 stmt = assess rule m2 stmt"
  by (auto simp: RULES_def rule_drop_table_def rule_drop_column_def rule_alter_column_type_def
      rule_add_column_def rule_create_index_concurrently_def rule_create_index_def
      rule_add_constraint_def rule_rename_def)

lemma first_match_mem: "first_match rules stmt = Some (rule, cap) \<Longrightarrow> rule \<in> set rules"
  by (induction rules) (auto split: option.splits)

lemma metaMap_of_rel:
  assumes "list_all2 same_but_size tm1 tm2"
  shows "rel_option same_but_size (metaMap_of tm1 k) (metaMap_of tm2 k)"
proof -
  have gen: "rel_option same_but_size
        (foldl (\<lambda>mp t. mp(toLowerCase (name t) \<mapsto> t)) a tm1 k)
        (foldl (\<lambda>mp t. mp(toLowerCase (name t) \<mapsto> t)) b tm2 k)"
    if "list_all2 same_but_size tm1 tm2" and "rel_option same_but_size (a k) (b k)" for a b
    using that
  proof (induction tm1 tm2 arbitrary: a b rule: list_all2_induct)
    case Nil
    then show ?case by simp
  next
    case (Cons x xs y ys)
    have st: "rel_option same_but_size ((a(toLowerCase (name x) \<mapsto> x)) k) ((b(toLowerCase (name y) \<mapsto> y)) k)"
    proof -
      from Cons.hyps(1) have nm: "name x = name y" by (simp add: same_but_size_def)
      show ?thesis using Cons.hyps(1) Cons.prems by (simp add: nm)
    qed
    from Cons.IH [of "a(toLowerCase (name x) \<mapsto> x)" "b(toLowerCase (name y) \<mapsto> y)", OF st]
    show ?case by simp
  qed
  show ?thesis unfolding metaMap_of_def by (rule gen [of Map.empty Map.empty, OF assms]) simp
qed

lemma meta_for_rowCount:
  assumes "list_all2 same_but_size tm1 tm2"
  shows "rowCount (meta_for (metaMap_of tm1) tbl) = rowCount (meta_for (metaMap_of tm2) tbl)"
  using metaMap_of_rel [OF assms, of "toLowerCase tbl"]
  by (auto simp: meta_for_def same_but_size_def elim!: option.rel_cases)

lemma assess_stmt_size:
  assumes "list_all2 same_but_size tm1 tm2"
  shows "assess_stmt (metaMap_of tm1) stmt = assess_stmt (metaMap_of tm2) stmt"
proof (cases "first_match RULES stmt")
  case None
  then show ?thesis by (simp add: assess_stmt_def)
next
  case (Some rc)
  obtain rule cap where rc: "rc = (rule, cap)" by (cases rc)
  from Some rc have "rule \<in> set RULES" by (auto dest: first_match_mem)
  from assess_rowCount [OF this meta_for_rowCount [OF assms]]
  show ?thesis using Some rc by (simp add: assess_stmt_def Let_def)
qed

section \<open>Facts about the matcher\<close>

lemmas rule_defs = rule_drop_table_def rule_drop_column_def rule_alter_column_type_def
  rule_add_column_def rule_create_index_concurrently_def rule_create_index_def
  rule_add_constraint_def rule_rename_def alter_table_def

lemma seq_Nil: "seq [] = Eps"
  by (simp add: seq_def)

lemma seq_Cons: "seq (r # rs) = Seq r (seq rs)"
  by (simp add: seq_def)

lemma Str_Cons: "Str (k # ks) = Seq (Lit k) (Str ks)"
  by (simp add: Str_def seq_def)

lemma matcher_Str:
  "matcher (Str kw) (s, cap) = (if ci_prefix kw s then [(drop (length kw) s, cap)] else [])"
proof (induction kw arbitrary: s)
  case Nil
  show ?case by (simp add: Str_def seq_def)
next
  case (Cons k ks)
  show ?case by (cases s) (simp_all add: Str_Cons Cons.IH)
qed

lemma first_simps:
  "first [] = None"
  "first (x # xs) = Some x"
  by (simp_all add: first_def)











lemma first_match_cong:
  "(\<And>rule. rule \<in> set rules \<Longrightarrow> exec (pattern rule) s1 = exec (pattern rule) s2) \<Longrightarrow>
   map_option snd (first_match rules s1) = map_option snd (first_match rules s2) \<and>
   first_match rules s1 = first_match rules s2"
  by (induction rules) (auto split: option.splits)




lemma concat_Eps: "concat (map (matcher Eps) xs) = xs"
  by (induction xs) simp_all

lemma matcher_Seq_Eps: "matcher (Seq r Eps) st = matcher r st"
  by (simp add: concat_Eps)






section \<open>Facts about the index statements\<close>










lemma exec_unique_concurrently:
  "rule \<in> set RULES \<Longrightarrow>
   exec (pattern rule) (''CREATE UNIQUE INDEX CONCURRENTLY '' @ rest) = exec (pattern rule) rest"
  by (auto simp: RULES_def rule_defs rx_eval)

section \<open>Facts about the textual scans\<close>

lemma test_occurs: "test r s = occurs (\<lambda>t. matcher r (t, None) \<noteq> []) s"
  by (induction s) (auto simp: test_def split: list.splits)

lemma test_Str: "test (Str kw) s = mentions kw s"
  by (simp add: test_occurs mentions_def matcher_Str)

lemma null_not_space: "ci_prefix ''NULL'' (c # r) \<Longrightarrow> \<not> is_space c"
  by (auto simp: canon_def code_def is_space_def Let_def split: if_splits)

lemma spaces_then_null:
  "(\<exists>e \<in> set (plus_ends Space r) \<union> {r}. ci_prefix ''NULL'' e) = ci_prefix ''NULL'' (dropWhile is_space r)"
proof (induction r)
  case Nil
  show ?case by simp
next
  case (Cons c r)
  show ?case
  proof (cases "is_space c")
    case True
    then have "\<not> ci_prefix ''NULL'' (c # r)" using null_not_space by blast
    with True Cons.IH show ?thesis by auto
  next
    case False
    then show ?thesis by simp
  qed
qed

lemma matcher_not_null: "(matcher not_null (t, None) \<noteq> []) = not_null_here t"
proof (cases "ci_prefix ''NOT'' t")
  case False
  then show ?thesis by (simp add: not_null_def not_null_here_def seq_Cons matcher_Str)
next
  case True
  have m: "matcher not_null (t, None) =
      concat (map (\<lambda>e. if ci_prefix ''NULL'' e then [(drop (length ''NULL'') e, None)] else []) (plus_ends Space (drop 3 t)))"
    using True by (simp add: not_null_def seq_Cons seq_Nil matcher_Str concat_Eps comp_def eval_nat_numeral)
  have "(matcher not_null (t, None) \<noteq> []) = (\<exists>e \<in> set (plus_ends Space (drop 3 t)). ci_prefix ''NULL'' e)"
    unfolding m by (induction "plus_ends Space (drop 3 t)") auto
  also have "\<dots> = (case drop 3 t of [] \<Rightarrow> False | c # r \<Rightarrow> is_space c \<and> ci_prefix ''NULL'' (dropWhile is_space r))"
    using spaces_then_null by (cases "drop 3 t") (auto simp del: ci_prefix.simps)
  finally show ?thesis using True by (simp add: not_null_here_def)
qed

lemma test_not_null: "test not_null s = has_not_null s"
  by (simp add: test_occurs has_not_null_def matcher_not_null)

lemma occurs_mono: "(\<And>t. P t \<Longrightarrow> Q t) \<Longrightarrow> occurs P s \<Longrightarrow> occurs Q s"
  by (induction s) auto

lemma keyword_needed:
  assumes "\<not> mentions kw s"
  shows "exec (seq (Str kw # rs)) s = None"
proof -
  have "\<not> occurs (\<lambda>t. matcher (seq (Str kw # rs)) (t, None) \<noteq> []) s"
  proof
    assume "occurs (\<lambda>t. matcher (seq (Str kw # rs)) (t, None) \<noteq> []) s"
    then have "occurs (ci_prefix kw) s"
      by (rule occurs_mono [rotated]) (simp add: seq_Cons matcher_Str split: if_splits)
    with assms show False by (simp add: mentions_def)
  qed
  then show ?thesis using test_occurs [of "seq (Str kw # rs)" s] by (simp add: test_def)
qed

lemma first_match_NoneI:
  "(\<And>rule. rule \<in> set rules \<Longrightarrow> exec (pattern rule) s = None) \<Longrightarrow> first_match rules s = None"
  by (induction rules) simp_all

lemma quiet_without_keywords:
  assumes "\<not> mentions ''DROP'' s" "\<not> mentions ''ALTER'' s" "\<not> mentions ''CREATE'' s"
  shows "first_match RULES s = None"
proof (rule first_match_NoneI)
  fix rule
  assume "rule \<in> set RULES"
  then show "exec (pattern rule) s = None"
    using assms by (auto simp: RULES_def rule_defs keyword_needed)
qed

section \<open>The claims\<close>

text \<open>
  Claim C1, as stated: the total estimated duration is the rounded sum of the durations of
  the items. The code adds the durations in binary64. With one row in one table and 49 rows
  in another, the two durations are the binary64 values nearest to 0.01 and 0.49; their sum
  is below one half and rounds to 0, while their binary64 sum is one half and the total of
  the report is 1.
\<close>

theorem total_duration_is_rounded_sum_counterexample:
  "map estimatedDurationMs (operations (analyze two_drops rows_1_49)) =
     [5764607523034235 / 576460752303423488, 2206763817411543 / 4503599627370496] \<and>
   Math_round (sum_list (map estimatedDurationMs (operations (analyze two_drops rows_1_49)))) = 0 \<and>
   totalEstimatedDurationMs (analyze two_drops rows_1_49) = 1"
proof -
  have ops: "map estimatedDurationMs (operations (analyze two_drops rows_1_49)) =
     [5764607523034235 / 576460752303423488, 2206763817411543 / 4503599627370496]"
    by code_simp
  have ex: "Math_round (sum_list
      [5764607523034235 / 576460752303423488, 2206763817411543 / 4503599627370496]) = 0"
    by (simp add: Math_round_def)
  have tot: "totalEstimatedDurationMs (analyze two_drops rows_1_49) = 1"
    by code_simp
  from ops ex tot show ?thesis by simp
qed

text \<open>
  Claim C1, amended. For every script and every metadata collection, the overall risk level
  of the report is \<open>low\<close> when the report has no items and is otherwise the level of one of
  the items that no item exceeds on the ordinal scale, that is, the maximum; the total
  estimated duration is the sum of the durations of the items, added from left to right in
  binary64, rounded to the nearest integer.
\<close>

theorem overall_risk_is_maximum_and_duration_is_binary64_sum:
  "(operations (analyze s tm) = [] \<longrightarrow> overallRisk (analyze s tm) = low) \<and>
   (operations (analyze s tm) \<noteq> [] \<longrightarrow>
      overallRisk (analyze s tm) \<in> riskLevel ` set (operations (analyze s tm)) \<and>
      (\<forall>op \<in> set (operations (analyze s tm)).
         ordinal (riskLevel op) \<le> ordinal (overallRisk (analyze s tm)))) \<and>
   totalEstimatedDurationMs (analyze s tm) =
     Math_round (fsum (map estimatedDurationMs (operations (analyze s tm)))) \<and>
   totalEstimatedDurationMs (analyze s tm) \<in> \<int> \<and>
   \<bar>totalEstimatedDurationMs (analyze s tm) -
      fsum (map estimatedDurationMs (operations (analyze s tm)))\<bar> \<le> 1 / 2"
proof -
  let ?ops = "operations (analyze s tm)"
  let ?r = "overallRisk (analyze s tm)"
  have m: "(?r = low \<or> ?r \<in> riskLevel ` set ?ops) \<and>
           (\<forall>op \<in> set ?ops. ordinal (riskLevel op) \<le> ordinal ?r)"
    using fold_max [of low ?ops] by (simp add: overallRisk_analyze)
  have e: "?ops = [] \<longrightarrow> ?r = low"
    using m by auto
  have n: "?ops \<noteq> [] \<longrightarrow> ?r \<in> riskLevel ` set ?ops"
  proof
    assume ne: "?ops \<noteq> []"
    then obtain x where x: "x \<in> set ?ops" by (cases ?ops) auto
    show "?r \<in> riskLevel ` set ?ops"
    proof (cases "?r = low")
      case True
      from m x have "ordinal (riskLevel x) \<le> ordinal ?r" by blast
      with True have "riskLevel x = low" by (cases "riskLevel x") simp_all
      with True x show ?thesis by force
    next
      case False
      with m show ?thesis by blast
    qed
  qed
  have t: "totalEstimatedDurationMs (analyze s tm) = Math_round (fsum (map estimatedDurationMs ?ops))"
    by (rule total_analyze)
  have i: "totalEstimatedDurationMs (analyze s tm) \<in> \<int> \<and>
      \<bar>totalEstimatedDurationMs (analyze s tm) - fsum (map estimatedDurationMs ?ops)\<bar> \<le> 1 / 2"
    unfolding t by (rule Math_round_nearest)
  from e n m t i show ?thesis by blast
qed

theorem overall_risk_is_maximum_and_duration_is_binary64_sum_witness:
  "map riskLevel (operations (analyze script3 [])) = [low, low, high] \<and>
   overallRisk (analyze script3 []) = high \<and>
   fsum (map estimatedDurationMs (operations (analyze script3 []))) = 4010 \<and>
   totalEstimatedDurationMs (analyze script3 []) = 4010"
proof -
  have ops: "map (\<lambda>op. (riskLevel op, estimatedDurationMs op)) (operations (analyze script3 [])) =
      [(low, 10), (low, 3000), (high, 1000)]"
    by code_simp
  then obtain a b c where abc: "operations (analyze script3 []) = [a, b, c]"
    and lv: "riskLevel a = low" "riskLevel b = low" "riskLevel c = high"
    and ms: "estimatedDurationMs a = 10" "estimatedDurationMs b = 3000" "estimatedDurationMs c = 1000"
    by auto
  have fs: "fsum [10, 3000, 1000] = 4010"
    by code_simp
  from overall_risk_is_maximum_and_duration_is_binary64_sum [of script3 "[]"] abc lv
  have mem: "overallRisk (analyze script3 []) \<in> {low, high}"
    and ub: "ordinal high \<le> ordinal (overallRisk (analyze script3 []))"
    and tot: "totalEstimatedDurationMs (analyze script3 []) = Math_round (fsum [10, 3000, 1000])"
    using ms by auto
  from mem ub have "overallRisk (analyze script3 []) = high" by auto
  moreover from tot have "totalEstimatedDurationMs (analyze script3 []) = 4010"
    by (simp add: fs Math_round_def)
  moreover have "fsum (map estimatedDurationMs (operations (analyze script3 []))) = 4010"
    using abc ms fs by simp
  ultimately show ?thesis using abc lv by simp
qed

text \<open>
  Claim C2. For every metadata collection, the report of the script \<^verbatim>\<open>DROP TABLE x;\<close> has
  exactly one item; its risk level is critical, its data-loss flag is set and its lock type
  is ACCESS EXCLUSIVE, the exclusive lock on the whole table.
\<close>

theorem drop_table_is_critical:
  "operations (analyze ''DROP TABLE x;'' tm) =
     [\<lparr>operation = ''DROP TABLE'', riskLevel = critical, lockType = ''ACCESS EXCLUSIVE'',
       estimatedDurationMs = 50, dataLoss = True,
       suggestion = ''Ensure full backup. Consider renaming to _deprecated instead.'',
       table = ''x''\<rparr>]"
proof -
  have st: "statements ''DROP TABLE x;'' = [''DROP TABLE x'']"
    by code_simp
  have fm: "first_match RULES ''DROP TABLE x'' = Some (rule_drop_table, Some ''x'')"
    by (simp add: RULES_def rule_drop_table_def rx_eval)
  show ?thesis
    by (simp add: operations_single [OF st] assess_stmt_def fm captured_def rule_drop_table_def
        mk_def with_table_def)
qed




text \<open>
  Claim C4. For every metadata collection, a statement whose first matching rule is the
  ADD COLUMN rule yields an item. When the text of the statement contains the not-null
  qualifier (the words NOT and NULL in any letter case with white space between them, which
  is what \<^verbatim>\<open>/NOT\s+NULL/i\<close> finds) and nowhere the word DEFAULT in any letter case (which is
  what \<^verbatim>\<open>/DEFAULT/i\<close> finds), the item has the risk level high and its suggestion mentions a
  default value; when the text does not contain the not-null qualifier, the item has the
  risk level low and no data loss.
\<close>

theorem add_column_assessment:
  assumes "first_match RULES stmt = Some (rule_add_column, cap)"
  shows "\<exists>item. assess_stmt (metaMap_of tm) stmt = Some item \<and>
     (stmt \<in> set (statements s) \<longrightarrow> item \<in> set (operations (analyze s tm))) \<and>
     (has_not_null stmt \<and> \<not> mentions ''DEFAULT'' stmt \<longrightarrow>
        riskLevel item = high \<and> (\<exists>pre post. suggestion item = pre @ ''DEFAULT value'' @ post)) \<and>
     (\<not> has_not_null stmt \<longrightarrow> riskLevel item = low \<and> \<not> dataLoss item)"
proof -
  let ?tbl = "captured cap"
  let ?item = "with_table (assess rule_add_column (meta_for (metaMap_of tm) ?tbl) stmt) ?tbl"
  have a: "assess_stmt (metaMap_of tm) stmt = Some ?item"
    using assms by (simp add: assess_stmt_def Let_def)
  have b: "stmt \<in> set (statements s) \<longrightarrow> ?item \<in> set (operations (analyze s tm))"
    using a by (simp add: in_operations)
  have sg: "''Add DEFAULT value or use nullable + backfill + set NOT NULL strategy.'' =
      ''Add '' @ ''DEFAULT value'' @ '' or use nullable + backfill + set NOT NULL strategy.''"
    by simp
  have c: "has_not_null stmt \<and> \<not> mentions ''DEFAULT'' stmt \<longrightarrow>
        riskLevel ?item = high \<and> (\<exists>pre post. suggestion ?item = pre @ ''DEFAULT value'' @ post)"
  proof
    assume "has_not_null stmt \<and> \<not> mentions ''DEFAULT'' stmt"
    then have t: "test not_null stmt \<and> \<not> test (Str ''DEFAULT'') stmt"
      by (simp add: test_not_null test_Str)
    then have s1: "suggestion ?item = ''Add DEFAULT value or use nullable + backfill + set NOT NULL strategy.''"
      and r1: "riskLevel ?item = high"
      by (simp_all add: rule_add_column_def with_table_def mk_def)
    from s1 sg have "suggestion ?item = ''Add '' @ ''DEFAULT value'' @ '' or use nullable + backfill + set NOT NULL strategy.''"
      by (rule trans)
    then have "\<exists>pre post. suggestion ?item = pre @ ''DEFAULT value'' @ post" by blast
    with r1 show "riskLevel ?item = high \<and> (\<exists>pre post. suggestion ?item = pre @ ''DEFAULT value'' @ post)"
      by simp
  qed
  have d: "\<not> has_not_null stmt \<longrightarrow> riskLevel ?item = low \<and> \<not> dataLoss ?item"
    by (simp add: rule_add_column_def with_table_def mk_def test_not_null)
  from a b c d show ?thesis by blast
qed

theorem add_column_assessment_witness:
  "first_match RULES add_not_null = Some (rule_add_column, Some ''x'') \<and>
   has_not_null add_not_null \<and> \<not> mentions ''DEFAULT'' add_not_null \<and>
   add_not_null \<in> set (statements (add_not_null @ '';'')) \<and>
   (\<exists>item \<in> set (operations (analyze (add_not_null @ '';'') [])).
      assess_stmt (metaMap_of []) add_not_null = Some item \<and> riskLevel item = high \<and>
      (\<exists>pre post. suggestion item = pre @ ''DEFAULT value'' @ post)) \<and>
   first_match RULES add_nullable = Some (rule_add_column, Some ''x'') \<and>
   \<not> has_not_null add_nullable \<and>
   add_nullable \<in> set (statements (add_nullable @ '';'')) \<and>
   (\<exists>item \<in> set (operations (analyze (add_nullable @ '';'') [])).
      assess_stmt (metaMap_of []) add_nullable = Some item \<and> riskLevel item = low \<and> \<not> dataLoss item)"
proof -
  have f1: "first_match RULES add_not_null = Some (rule_add_column, Some ''x'')"
    by (simp add: add_not_null_def RULES_def rule_drop_table_def rule_drop_column_def
        rule_alter_column_type_def rule_add_column_def alter_table_def rx_eval)
  have n1: "has_not_null add_not_null"
    by (simp add: add_not_null_def has_not_null_def not_null_here_def canon_def code_def
        is_space_def)
  have d1: "\<not> mentions ''DEFAULT'' add_not_null"
    by (simp add: add_not_null_def mentions_def canon_def code_def)
  have s1: "add_not_null \<in> set (statements (add_not_null @ '';''))"
    by (simp add: add_not_null_def statements_def trim_def is_space_def code_def)
  have f2: "first_match RULES add_nullable = Some (rule_add_column, Some ''x'')"
    by (simp add: add_nullable_def RULES_def rule_drop_table_def rule_drop_column_def
        rule_alter_column_type_def rule_add_column_def alter_table_def rx_eval)
  have n2: "\<not> has_not_null add_nullable"
    by (simp add: add_nullable_def has_not_null_def not_null_here_def canon_def code_def
        is_space_def)
  have s2: "add_nullable \<in> set (statements (add_nullable @ '';''))"
    by (simp add: add_nullable_def statements_def trim_def is_space_def code_def)
  from add_column_assessment [OF f1, of "[]" "add_not_null @ '';''"] n1 d1 s1
  have a: "\<exists>item \<in> set (operations (analyze (add_not_null @ '';'') [])).
      assess_stmt (metaMap_of []) add_not_null = Some item \<and> riskLevel item = high \<and>
      (\<exists>pre post. suggestion item = pre @ ''DEFAULT value'' @ post)"
    by blast
  from add_column_assessment [OF f2, of "[]" "add_nullable @ '';''"] n2 s2
  have b: "\<exists>item \<in> set (operations (analyze (add_nullable @ '';'') [])).
      assess_stmt (metaMap_of []) add_nullable = Some item \<and> riskLevel item = low \<and> \<not> dataLoss item"
    by blast
  from f1 n1 d1 s1 a f2 n2 s2 b show ?thesis by blast
qed


text \<open>
  Claim C6. For every parsed migration and table metadata, the overall score of the
  multi-factor scorer is the combination of the four factor scores of the report with the
  weights 0.25 (table size), 0.30 (lock), 0.20 (cascade) and 0.25 (data loss), rounded to
  the nearest integer: it is an integer at distance at most one half from the weighted
  sum. It always lies between 0 and 100.
\<close>

theorem overall_score_is_weighted_combination:
  "factors (calculateRiskScore pr mg md) =
     [scoreTableSize pr (TableMetadata.rowCount md), scoreLockRisk mg, scoreCascadeRisk pr md,
      scoreDataLoss mg] \<and>
   overallScore (calculateRiskScore pr mg md) =
     Math_round (25 / 100 * RiskFactor.score (scoreTableSize pr (TableMetadata.rowCount md)) +
                 30 / 100 * RiskFactor.score (scoreLockRisk mg) +
                 20 / 100 * RiskFactor.score (scoreCascadeRisk pr md) +
                 25 / 100 * RiskFactor.score (scoreDataLoss mg)) \<and>
   overallScore (calculateRiskScore pr mg md) \<in> \<int> \<and>
   \<bar>overallScore (calculateRiskScore pr mg md) -
      (25 / 100 * RiskFactor.score (scoreTableSize pr (TableMetadata.rowCount md)) +
       30 / 100 * RiskFactor.score (scoreLockRisk mg) +
       20 / 100 * RiskFactor.score (scoreCascadeRisk pr md) +
       25 / 100 * RiskFactor.score (scoreDataLoss mg))\<bar> \<le> 1 / 2 \<and>
   0 \<le> overallScore (calculateRiskScore pr mg md) \<and>
   overallScore (calculateRiskScore pr mg md) \<le> 100"
proof -
  let ?w = "25 / 100 * RiskFactor.score (scoreTableSize pr (TableMetadata.rowCount md)) +
            30 / 100 * RiskFactor.score (scoreLockRisk mg) +
            20 / 100 * RiskFactor.score (scoreCascadeRisk pr md) +
            25 / 100 * RiskFactor.score (scoreDataLoss mg)"
  have f: "factors (calculateRiskScore pr mg md) =
     [scoreTableSize pr (TableMetadata.rowCount md), scoreLockRisk mg, scoreCascadeRisk pr md,
      scoreDataLoss mg]"
    by (simp add: calculateRiskScore_def Let_def)
  have eq: "overallScore (calculateRiskScore pr mg md) = Math_round ?w"
    by (simp add: calculateRiskScore_def Let_def WEIGHTS_def)
  have a: "0 \<le> RiskFactor.score (scoreTableSize pr (TableMetadata.rowCount md)) \<and>
           RiskFactor.score (scoreTableSize pr (TableMetadata.rowCount md)) \<le> 100"
    using ts_range [of pr "TableMetadata.rowCount md"] by auto
  have b: "0 \<le> RiskFactor.score (scoreLockRisk mg) \<and> RiskFactor.score (scoreLockRisk mg) \<le> 100"
    using lr_range [of mg] by auto
  have c: "0 \<le> RiskFactor.score (scoreCascadeRisk pr md) \<and> RiskFactor.score (scoreCascadeRisk pr md) \<le> 100"
    using cr_range [of pr md] by auto
  have d: "0 \<le> RiskFactor.score (scoreDataLoss mg) \<and> RiskFactor.score (scoreDataLoss mg) \<le> 100"
    using dl_range [of mg] by auto
  have w: "0 \<le> ?w \<and> ?w \<le> 100"
    by (rule weighted_bounds [OF a b c d])
  have r: "0 \<le> Math_round ?w \<and> Math_round ?w \<le> 100"
    using w by (intro Math_round_range) simp_all
  from f eq r Math_round_nearest [of ?w] show ?thesis by simp
qed

text \<open>
  Claim C7. The table-size factor score is monotonically non-decreasing in the row count,
  and the cascade factor score is monotonically non-decreasing in the combined foreign-key
  count. A count is not negative, which the second part states for the smaller of the two
  counts.
\<close>

theorem factor_scores_monotone:
  "(r1 \<le> r2 \<longrightarrow>
      RiskFactor.score (scoreTableSize pr r1) \<le> RiskFactor.score (scoreTableSize pr r2)) \<and>
   (0 \<le> fkCount m1 \<and> fkCount m1 \<le> fkCount m2 \<longrightarrow>
      RiskFactor.score (scoreCascadeRisk pr m1) \<le> RiskFactor.score (scoreCascadeRisk pr m2))"
  by (simp add: scoreTableSize_def scoreCascadeRisk_def Let_def)

theorem factor_scores_monotone_witness:
  "(500::real) \<le> 5000000 \<and>
   RiskFactor.score (scoreTableSize plain 500) = 5 \<and>
   RiskFactor.score (scoreTableSize plain 5000000) = 65 \<and>
   0 \<le> fkCount (orders_fk (Some 1) None) \<and>
   fkCount (orders_fk (Some 1) None) \<le> fkCount (orders_fk (Some 4) (Some 3)) \<and>
   RiskFactor.score (scoreCascadeRisk plain (orders_fk (Some 1) None))
     \<le> RiskFactor.score (scoreCascadeRisk plain (orders_fk (Some 4) (Some 3)))"
  using factor_scores_monotone [of 500 5000000 plain "orders_fk (Some 1) None"
      "orders_fk (Some 4) (Some 3)"]
  by (simp add: scoreTableSize_def fkCount_def or_zero_def orders_fk_def)

text \<open>
  Claim C8, as stated: a statement whose captured table name has no entry in the metadata
  is assessed against the fixed default metadata, whose name is \<open>unknown\<close>. The metadata
  that the code hands to the assessment carries the captured table name instead.
\<close>

theorem fallback_metadata_counterexample:
  "first_match RULES ''DROP TABLE x'' = Some (rule_drop_table, Some ''x'') \<and>
   metaMap_of [] (toLowerCase (captured (Some ''x''))) = None \<and>
   name (meta_for (metaMap_of []) (captured (Some ''x''))) = ''x'' \<and>
   name DEFAULT_META = ''unknown'' \<and>
   meta_for (metaMap_of []) (captured (Some ''x'')) \<noteq> DEFAULT_META"
proof -
  have fm: "first_match RULES ''DROP TABLE x'' = Some (rule_drop_table, Some ''x'')"
    by (simp add: RULES_def rule_drop_table_def rx_eval)
  have nm: "name (meta_for (metaMap_of []) (captured (Some ''x''))) = ''x''"
    by (simp add: meta_for_def metaMap_of_def captured_def)
  have un: "name DEFAULT_META = ''unknown''"
    by (simp add: DEFAULT_META_def)
  from nm un have "meta_for (metaMap_of []) (captured (Some ''x'')) \<noteq> DEFAULT_META"
    by auto
  with fm nm un show ?thesis by (simp add: metaMap_of_def)
qed

text \<open>
  Claim C8, amended. For every matched statement whose captured table name has no entry in
  the metadata, the assessment is computed against the metadata with the row count 100,000
  and the size 10,000,000 bytes of the default and with the captured table name as its name.
  No assessment reads the name, so the item is the one that the fixed default itself gives:
  an operation whose duration scales with the row count uses 100,000 rows.
\<close>

theorem fallback_metadata:
  assumes "first_match RULES stmt = Some (rule, cap)"
    and "metaMap (toLowerCase (captured cap)) = None"
  shows "meta_for metaMap (captured cap) =
           \<lparr>name = captured cap, rowCount = 100000, sizeBytes = 10000000\<rparr> \<and>
         assess_stmt metaMap stmt =
           Some (with_table
             (assess rule \<lparr>name = captured cap, rowCount = 100000, sizeBytes = 10000000\<rparr> stmt)
             (captured cap)) \<and>
         assess_stmt metaMap stmt = Some (with_table (assess rule DEFAULT_META stmt) (captured cap))"
proof -
  have mf: "meta_for metaMap (captured cap) =
      \<lparr>name = captured cap, rowCount = 100000, sizeBytes = 10000000\<rparr>"
    using assms(2) by (simp add: meta_for_def DEFAULT_META_def)
  have a: "assess_stmt metaMap stmt = Some (with_table (assess rule (meta_for metaMap (captured cap)) stmt) (captured cap))"
    using assms(1) by (simp add: assess_stmt_def Let_def)
  from assms(1) have mem: "rule \<in> set RULES" by (rule first_match_mem)
  have "assess rule \<lparr>name = captured cap, rowCount = 100000, sizeBytes = 10000000\<rparr> stmt =
        assess rule DEFAULT_META stmt"
    by (rule assess_rowCount [OF mem]) (simp add: DEFAULT_META_def)
  with mf a show ?thesis by simp
qed

theorem fallback_metadata_witness:
  "first_match RULES ''ALTER TABLE t DROP COLUMN c'' = Some (rule_drop_column, Some ''t'') \<and>
   metaMap_of [] (toLowerCase (captured (Some ''t''))) = None \<and>
   meta_for (metaMap_of []) (captured (Some ''t'')) =
     \<lparr>name = ''t'', rowCount = 100000, sizeBytes = 10000000\<rparr> \<and>
   map_option estimatedDurationMs (assess_stmt (metaMap_of []) ''ALTER TABLE t DROP COLUMN c'') = Some 1000"
proof -
  have fm: "first_match RULES ''ALTER TABLE t DROP COLUMN c'' = Some (rule_drop_column, Some ''t'')"
    by (simp add: RULES_def rule_drop_table_def rule_drop_column_def alter_table_def rx_eval)
  have no: "metaMap_of [] (toLowerCase (captured (Some ''t''))) = None"
    by (simp add: metaMap_of_def)
  have c: "captured (Some ''t'') = ''t''"
    by (simp add: captured_def)
  from fallback_metadata [where metaMap = "metaMap_of []", OF fm no] show ?thesis
    unfolding c using fm no
    by (simp add: c rule_drop_column_def mk_def with_table_def default_rows_duration)
qed

text \<open>
  Claim C9. For every script and every two metadata collections that differ only in the
  sizes in bytes of their entries, the two reports are equal.
\<close>

theorem size_bytes_never_read:
  assumes "list_all2 same_but_size tm1 tm2"
  shows "analyze s tm1 = analyze s tm2"
proof -
  have "collect (metaMap_of tm1) (statements s) [] = collect (metaMap_of tm2) (statements s) []"
    by (simp add: collect_map_filter map_filter_def assess_stmt_size [OF assms])
  then show ?thesis by (simp add: analyze_def)
qed

theorem size_bytes_never_read_witness:
  "list_all2 same_but_size (events_meta 5000000000) (events_meta 1) \<and>
   events_meta 5000000000 \<noteq> events_meta 1 \<and>
   analyze ''ALTER TABLE events ALTER COLUMN payload TYPE jsonb;'' (events_meta 5000000000) =
   analyze ''ALTER TABLE events ALTER COLUMN payload TYPE jsonb;'' (events_meta 1)"
proof -
  have h: "list_all2 same_but_size (events_meta 5000000000) (events_meta 1)"
    by (simp add: events_meta_def same_but_size_def)
  have d: "events_meta 5000000000 \<noteq> events_meta 1"
    by (simp add: events_meta_def)
  from h d size_bytes_never_read [OF h] show ?thesis by simp
qed

text \<open>
  Claim C10, as stated: a statement of the form
  \<^verbatim>\<open>CREATE UNIQUE INDEX CONCURRENTLY <name> ON <table> ...\<close> matches no rule and adds no item.
  The patterns are searched at every place of the text: a statement of this form whose
  predicate quotes a \<^verbatim>\<open>DROP TABLE\<close> is matched by the first rule and adds a critical item.
\<close>

theorem unique_concurrent_index_counterexample:
  "operations (analyze (''CREATE UNIQUE INDEX CONCURRENTLY '' @ quoting_drop @ '';'') []) =
     [\<lparr>operation = ''DROP TABLE'', riskLevel = critical, lockType = ''ACCESS EXCLUSIVE'',
       estimatedDurationMs = 50, dataLoss = True,
       suggestion = ''Ensure full backup. Consider renaming to _deprecated instead.'',
       table = ''x''\<rparr>]"
  by code_simp

text \<open>
  Claim C10, amended. For every metadata collection, in a statement that begins with
  \<^verbatim>\<open>CREATE UNIQUE INDEX CONCURRENTLY\<close> neither index pattern matches at the start, and no rule
  matches at any place of these words: the rules see the statement as they see what follows
  the words. When what follows (the index name, \<^verbatim>\<open>ON\<close>, the table and the columns) holds no
  text that a rule matches, the statement matches no rule and adds no item to the report;
  this is so, for one, when what follows contains none of the words DROP, ALTER and CREATE,
  with which every pattern begins.
\<close>

theorem unique_concurrent_index_matches_no_rule:
  "matcher (pattern rule_create_index_concurrently)
     (''CREATE UNIQUE INDEX CONCURRENTLY '' @ rest, None) = [] \<and>
   matcher (pattern rule_create_index)
     (''CREATE UNIQUE INDEX CONCURRENTLY '' @ rest, None) = [] \<and>
   first_match RULES (''CREATE UNIQUE INDEX CONCURRENTLY '' @ rest) = first_match RULES rest \<and>
   (\<not> mentions ''DROP'' rest \<and> \<not> mentions ''ALTER'' rest \<and> \<not> mentions ''CREATE'' rest \<longrightarrow>
      first_match RULES rest = None) \<and>
   (first_match RULES rest = None \<longrightarrow>
      assess_stmt (metaMap_of tm) (''CREATE UNIQUE INDEX CONCURRENTLY '' @ rest) = None \<and>
      (statements s = [''CREATE UNIQUE INDEX CONCURRENTLY '' @ rest] \<longrightarrow>
         operations (analyze s tm) = []))"
proof -
  have a: "matcher (pattern rule_create_index_concurrently)
     (''CREATE UNIQUE INDEX CONCURRENTLY '' @ rest, None) = []"
    by (simp add: rule_create_index_concurrently_def rx_eval)
  have b: "matcher (pattern rule_create_index)
     (''CREATE UNIQUE INDEX CONCURRENTLY '' @ rest, None) = []"
    by (simp add: rule_create_index_def rx_eval)
  have c: "first_match RULES (''CREATE UNIQUE INDEX CONCURRENTLY '' @ rest) = first_match RULES rest"
    using first_match_cong [of RULES "''CREATE UNIQUE INDEX CONCURRENTLY '' @ rest" rest]
      exec_unique_concurrently [of _ rest] by blast
  have d: "first_match RULES rest = None \<longrightarrow>
      assess_stmt (metaMap_of tm) (''CREATE UNIQUE INDEX CONCURRENTLY '' @ rest) = None \<and>
      (statements s = [''CREATE UNIQUE INDEX CONCURRENTLY '' @ rest] \<longrightarrow>
         operations (analyze s tm) = [])"
  proof
    assume "first_match RULES rest = None"
    with c have n: "assess_stmt (metaMap_of tm) (''CREATE UNIQUE INDEX CONCURRENTLY '' @ rest) = None"
      by (simp add: assess_stmt_def)
    then show "assess_stmt (metaMap_of tm) (''CREATE UNIQUE INDEX CONCURRENTLY '' @ rest) = None \<and>
      (statements s = [''CREATE UNIQUE INDEX CONCURRENTLY '' @ rest] \<longrightarrow>
         operations (analyze s tm) = [])"
      by (simp add: operations_single)
  qed
  have e: "\<not> mentions ''DROP'' rest \<and> \<not> mentions ''ALTER'' rest \<and> \<not> mentions ''CREATE'' rest \<longrightarrow>
      first_match RULES rest = None"
    by (simp add: quiet_without_keywords)
  from a b c d e show ?thesis by blast
qed

theorem unique_concurrent_index_matches_no_rule_witness:
  "\<not> mentions ''DROP'' idx_rest \<and> \<not> mentions ''ALTER'' idx_rest \<and>
   \<not> mentions ''CREATE'' idx_rest \<and> first_match RULES idx_rest = None \<and>
   statements (''CREATE UNIQUE INDEX CONCURRENTLY '' @ idx_rest @ '';'') =
     [''CREATE UNIQUE INDEX CONCURRENTLY '' @ idx_rest] \<and>
   operations (analyze (''CREATE UNIQUE INDEX CONCURRENTLY '' @ idx_rest @ '';'') []) = []"
proof -
  have k: "\<not> mentions ''DROP'' idx_rest \<and> \<not> mentions ''ALTER'' idx_rest \<and>
      \<not> mentions ''CREATE'' idx_rest"
    by (simp add: idx_rest_def mentions_def canon_def code_def)
  have st: "statements (''CREATE UNIQUE INDEX CONCURRENTLY '' @ idx_rest @ '';'') =
     [''CREATE UNIQUE INDEX CONCURRENTLY '' @ idx_rest]"
    by (simp add: idx_rest_def statements_def trim_def is_space_def code_def)
  from unique_concurrent_index_matches_no_rule
    [of idx_rest "[]" "''CREATE UNIQUE INDEX CONCURRENTLY '' @ idx_rest @ '';''"] k st
  show ?thesis by blast
qed

end
